theory Spec2Isabelle
  imports Complex_Main
begin

section \<open>The application store of breathe-pulse\<close>

text \<open>
  A shallow embedding of \<^verbatim>\<open>frontend/src/utils/useAppStore.ts\<close> and of the break
  catalogue \<^verbatim>\<open>utils/breakTypes.ts\<close>. A JavaScript \<^verbatim>\<open>number\<close> that carries a
  measurement (the stress level, a cooldown in minutes, the result of \<^verbatim>\<open>Math.random\<close>)
  is a \<^typ>\<open>real\<close>. The arithmetic on the stress level is exact here, where the code
  rounds every operation to a double: the smoothed level of the model is the idealised one,
  and what the store holds bit for bit is outside this embedding. The product that selects
  a break is rounded as the code rounds it, since its floor decides the selection. A reading of
  \<^verbatim>\<open>Date.now()\<close> is an \<^typ>\<open>int\<close> (milliseconds since the epoch). A field of type
  \<^verbatim>\<open>T | null\<close> is a \<^typ>\<open>'a option\<close>. The store is passed explicitly: every action
  takes the state (and the clock reading or external answer it consumes) and returns the
  new state. Console logging is not modelled.
\<close>

subsection \<open>Data\<close>

text \<open>\<^verbatim>\<open>interface BreakType { id; title; description }\<close>\<close>

record BreakType =
  break_id :: string
  title :: string
  description :: string

datatype Role = User | Assistant

record ChatMessage =
  role :: Role
  content :: string

text \<open>\<^verbatim>\<open>interface AppState\<close>, without the \<^verbatim>\<open>actions\<close> object.\<close>

record AppState =
  currentStressLevel :: real
  isUserActive :: bool
  lastBreakTimestamp :: "int option"
  breakSuggestionActive :: bool
  currentBreakSuggestion :: "BreakType option"
  dynamicCoachingMessage :: "string option"
  isFetchingCoachingMessage :: bool
  isChatOpen :: bool
  isCompanionChatOpen :: bool
  isFeedbackChatOpen :: bool
  feedbackChatHistory :: "ChatMessage list"
  isFeedbackLoading :: bool

text \<open>The state \<^verbatim>\<open>create<AppState>\<close> starts from.\<close>

definition initialState :: AppState where
  "initialState =
     \<lparr> currentStressLevel = 0,
       isUserActive = False,
       lastBreakTimestamp = None,
       breakSuggestionActive = False,
       currentBreakSuggestion = None,
       dynamicCoachingMessage = None,
       isFetchingCoachingMessage = False,
       isChatOpen = False,
       isCompanionChatOpen = False,
       isFeedbackChatOpen = False,
       feedbackChatHistory = [],
       isFeedbackLoading = False \<rparr>"

subsection \<open>The break catalogue\<close>

definition breathing :: BreakType where
  "breathing =
     \<lparr> break_id = ''breathing'',
       title = ''Box Breathing'',
       description = ''Slowly inhale for 4 seconds, hold your breath for 4 seconds, slowly exhale for 4 seconds, and hold empty for 4 seconds. Repeat 3-5 times to calm your nervous system.'' \<rparr>"

definition stretch :: BreakType where
  "stretch =
     \<lparr> break_id = ''stretch'',
       title = ''Quick Stretch'',
       description = ''Gently roll your head clockwise, then counter-clockwise. Lift your shoulders up towards your ears, hold for a moment, then relax them down. Reach your arms overhead.'' \<rparr>"

definition eye_rest :: BreakType where
  "eye_rest =
     \<lparr> break_id = ''eye_rest'',
       title = ''Eye Rest (20-20-20)'',
       description = ''Look away from your screen at an object at least 20 feet (6 meters) away for 20 seconds. This helps reduce digital eye strain.'' \<rparr>"

definition mindful_moment :: BreakType where
  "mindful_moment =
     \<lparr> break_id = ''mindful_moment'',
       title = ''Mindful Moment'',
       description = ''Close your eyes or soften your gaze. Bring your attention to your senses for 60 seconds. What sounds do you hear? How does your body feel? Just observe without judgment.'' \<rparr>"

definition puzzle :: BreakType where
  "puzzle =
     \<lparr> break_id = ''puzzle'',
       title = ''Quick Brain Teaser'',
       description = ''Solve this quick math problem to reset your focus.'' \<rparr>"

definition breakTypes :: "BreakType list" where
  "breakTypes = [breathing, stretch, eye_rest, mindful_moment, puzzle]"

subsection \<open>Smoothing\<close>

definition SMOOTHING_FACTOR :: real where
  "SMOOTHING_FACTOR = 1 / 10"

definition updateMetricsFromCV :: "real \<Rightarrow> bool \<Rightarrow> AppState \<Rightarrow> AppState" where
  "updateMetricsFromCV rawStressLevel active s =
     (let currentSmoothedLevel = currentStressLevel s;
          newSmoothedLevel =
            SMOOTHING_FACTOR * rawStressLevel + (1 - SMOOTHING_FACTOR) * currentSmoothedLevel
      in s\<lparr> currentStressLevel := newSmoothedLevel, isUserActive := active \<rparr>)"

text \<open>The sensor delivers one sample after the other; each is an update of the store.\<close>

fun feedSamples :: "(real \<times> bool) list \<Rightarrow> AppState \<Rightarrow> AppState" where
  "feedSamples [] s = s"
| "feedSamples ((raw, active) # rest) s = feedSamples rest (updateMetricsFromCV raw active s)"

subsection \<open>Ending a suggestion, and the chat actions\<close>

text \<open>
  \<^verbatim>\<open>dismissBreakSuggestion: (cooldownMinutes = 5) => ...\<close>: the argument is optional
  and defaults to 5. The body uses it in the log line only.
\<close>

definition dismissBreakSuggestion :: "real option \<Rightarrow> int \<Rightarrow> AppState \<Rightarrow> AppState" where
  "dismissBreakSuggestion arg now s =
     (let cooldownMinutes = (case arg of None \<Rightarrow> 5 | Some c \<Rightarrow> c)
      in s\<lparr> breakSuggestionActive := False,
            currentBreakSuggestion := None,
            dynamicCoachingMessage := None,
            isFetchingCoachingMessage := False,
            lastBreakTimestamp := Some now \<rparr>)"

definition recordBreakTaken :: "int \<Rightarrow> AppState \<Rightarrow> AppState" where
  "recordBreakTaken now s =
     s\<lparr> breakSuggestionActive := False,
        currentBreakSuggestion := None,
        dynamicCoachingMessage := None,
        isFetchingCoachingMessage := False,
        lastBreakTimestamp := Some now \<rparr>"

definition openChat :: "AppState \<Rightarrow> AppState" where
  "openChat s =
     s\<lparr> isChatOpen := True,
        breakSuggestionActive := False,
        currentBreakSuggestion := None,
        dynamicCoachingMessage := None,
        isFetchingCoachingMessage := False \<rparr>"

definition openFeedbackChat :: "ChatMessage option \<Rightarrow> AppState \<Rightarrow> AppState" where
  "openFeedbackChat initialMessage s =
     (let initialHistory = (case initialMessage of Some m \<Rightarrow> [m] | None \<Rightarrow> [])
      in s\<lparr> isFeedbackChatOpen := True,
            feedbackChatHistory := initialHistory,
            isFeedbackLoading := False,
            breakSuggestionActive := False,
            currentBreakSuggestion := None,
            dynamicCoachingMessage := None,
            isFetchingCoachingMessage := False \<rparr>)"

definition closeChat :: "AppState \<Rightarrow> AppState" where
  "closeChat s = s\<lparr> isChatOpen := False \<rparr>"

definition openCompanionChat :: "AppState \<Rightarrow> AppState" where
  "openCompanionChat s = s\<lparr> isCompanionChatOpen := True \<rparr>"

definition closeCompanionChat :: "AppState \<Rightarrow> AppState" where
  "closeCompanionChat s = s\<lparr> isCompanionChatOpen := False \<rparr>"

definition closeFeedbackChat :: "AppState \<Rightarrow> AppState" where
  "closeFeedbackChat s =
     s\<lparr> isFeedbackChatOpen := False, feedbackChatHistory := [], isFeedbackLoading := False \<rparr>"

definition addFeedbackMessage :: "ChatMessage \<Rightarrow> AppState \<Rightarrow> AppState" where
  "addFeedbackMessage message s = s\<lparr> feedbackChatHistory := feedbackChatHistory s @ [message] \<rparr>"

definition setFeedbackLoading :: "bool \<Rightarrow> AppState \<Rightarrow> AppState" where
  "setFeedbackLoading isLoading s = s\<lparr> isFeedbackLoading := isLoading \<rparr>"

subsection \<open>Raising a suggestion\<close>

text \<open>
  \<^verbatim>\<open>lastBreakTimestamp ? now - lastBreakTimestamp : Infinity\<close>. The test is
  JavaScript truthiness: \<^verbatim>\<open>null\<close> is falsy, and so is the number 0.
\<close>

datatype elapsed = Elapsed int | Infinity

definition MIN_BREAK_INTERVAL_MS :: int where
  "MIN_BREAK_INTERVAL_MS = 15 * 60 * 1000"

definition STRESS_THRESHOLD :: real where
  "STRESS_THRESHOLD = 21"

definition timeSinceLastBreak :: "AppState \<Rightarrow> int \<Rightarrow> elapsed" where
  "timeSinceLastBreak s now =
     (case lastBreakTimestamp s of
        None \<Rightarrow> Infinity
      | Some t \<Rightarrow> if t = 0 then Infinity else Elapsed (now - t))"

fun exceeds :: "elapsed \<Rightarrow> int \<Rightarrow> bool" where
  "exceeds Infinity m = True"
| "exceeds (Elapsed d) m = (d > m)"

definition shouldShowNormally :: "AppState \<Rightarrow> int \<Rightarrow> bool" where
  "shouldShowNormally s now =
     (\<not> breakSuggestionActive s \<and>
      isUserActive s \<and>
      currentStressLevel s > STRESS_THRESHOLD \<and>
      exceeds (timeSinceLastBreak s now) MIN_BREAK_INTERVAL_MS)"

text \<open>
  A double-precision multiplication returns the double nearest to the exact product, a tie
  going to the double with the even significand (IEEE 754 binary64, round to nearest, ties
  to even). A double is an integer multiple of a power of two, its unit in the last place:
  a number of magnitude from \<open>2 ^ e\<close> up to \<open>2 ^ (e + 1)\<close> has 53 significant bits and
  the unit \<open>2 ^ (e - 52)\<close>, and below \<open>2 ^ (- 1022)\<close> the unit stays
  \<open>2 ^ (- 1074)\<close>. Results of magnitude \<open>2 ^ 1024\<close> and more, which the code turns
  into \<^verbatim>\<open>Infinity\<close>, do not occur in the product below and are not modelled.
\<close>

definition roundTiesToEven :: "real \<Rightarrow> int" where
  "roundTiesToEven q =
     (let f = \<lfloor>q\<rfloor>; d = q - real_of_int f
      in if d < 1 / 2 then f else if 1 / 2 < d then f + 1 else if even f then f else f + 1)"

definition exponent :: "real \<Rightarrow> int" where
  "exponent x = max \<lfloor>log 2 \<bar>x\<bar>\<rfloor> (- 1022)"

definition ulp :: "real \<Rightarrow> real" where
  "ulp x = 2 powi (exponent x - 52)"

definition binary64 :: "real \<Rightarrow> real" where
  "binary64 x = (if x = 0 then 0 else real_of_int (roundTiesToEven (x / ulp x)) * ulp x)"

text \<open>The numbers that are doubles: rounding leaves them as they are.\<close>

definition is_double :: "real \<Rightarrow> bool" where
  "is_double x = (binary64 x = x \<and> \<bar>x\<bar> < 2 ^ 1024)"

text \<open>
  \<^verbatim>\<open>Math.floor(Math.random() * breakTypes.length)\<close>, with the result \<open>r\<close> of
  \<^verbatim>\<open>Math.random()\<close> as a parameter: a double from 0 up to but not including 1. The
  product is the rounded one; \<^verbatim>\<open>Math.floor\<close> is exact. An index outside the array
  reads \<^verbatim>\<open>undefined\<close>, here \<open>None\<close>.
\<close>

definition randomIndex :: "real \<Rightarrow> int" where
  "randomIndex r = \<lfloor>binary64 (r * real (length breakTypes))\<rfloor>"

definition selectBreak :: "real \<Rightarrow> BreakType option" where
  "selectBreak r =
     (let i = randomIndex r
      in if 0 \<le> i \<and> i < int (length breakTypes) then Some (breakTypes ! nat i) else None)"

text \<open>
  The external calls inside the \<^verbatim>\<open>try\<close> block, as the answers they give:
  \<^verbatim>\<open>auth.getAuthToken()\<close> throws or returns a token or \<^verbatim>\<open>null\<close>;
  \<^verbatim>\<open>brain.generate_coaching_message\<close> throws or returns a response, whose
  \<^verbatim>\<open>json()\<close> throws or yields \<^verbatim>\<open>data.message\<close>.
\<close>

datatype error = TypeError | AuthTokenNotFound | ExternalFailure

record CoachingService =
  authToken :: "error + string option"
  coachingResponse :: "error + (error + string)"

definition fetchCoachingMessage :: "CoachingService \<Rightarrow> error + string" where
  "fetchCoachingMessage env =
     (case authToken env of
        Inl e \<Rightarrow> Inl e
      | Inr token \<Rightarrow>
          if token = None \<or> token = Some [] then Inl AuthTokenNotFound
          else (case coachingResponse env of
                  Inl e \<Rightarrow> Inl e
                | Inr response \<Rightarrow>
                    (case response of Inl e \<Rightarrow> Inl e | Inr message \<Rightarrow> Inr message)))"

text \<open>
  \<^verbatim>\<open>showBreakSuggestion\<close> is \<^verbatim>\<open>async\<close>. It runs without interruption up to its
  first \<^verbatim>\<open>await\<close>: it reads the store and the clock, decides, sets the loading flag and
  selects a break. Reading \<^verbatim>\<open>selectedBreak.description\<close> of \<^verbatim>\<open>undefined\<close>
  throws outside the \<^verbatim>\<open>try\<close>, after the first \<^verbatim>\<open>set\<close>.
\<close>

datatype suspended =
    NotRaised
  | Threw error AppState
  | Awaiting BreakType AppState

definition showBreakSuggestion_begin :: "bool \<Rightarrow> int \<Rightarrow> real \<Rightarrow> AppState \<Rightarrow> suspended" where
  "showBreakSuggestion_begin force now r s =
     (if force \<or> shouldShowNormally s now then
        (let s1 = s\<lparr> isFetchingCoachingMessage := True, dynamicCoachingMessage := None \<rparr>
         in case selectBreak r of
              None \<Rightarrow> Threw TypeError s1
            | Some selectedBreak \<Rightarrow> Awaiting selectedBreak s1)
      else NotRaised)"

text \<open>
  After the awaited calls the function resumes on the store as it is then: the message is
  the fetched one, or the static description when the \<^verbatim>\<open>try\<close> block threw, and the
  final \<^verbatim>\<open>set\<close> writes four fields.
\<close>

definition coachingMessage :: "BreakType \<Rightarrow> CoachingService \<Rightarrow> string" where
  "coachingMessage selectedBreak env =
     (case fetchCoachingMessage env of
        Inl e \<Rightarrow> description selectedBreak
      | Inr message \<Rightarrow> message)"

definition showBreakSuggestion_finish :: "BreakType \<Rightarrow> CoachingService \<Rightarrow> AppState \<Rightarrow> AppState" where
  "showBreakSuggestion_finish selectedBreak env s =
     s\<lparr> breakSuggestionActive := True,
        currentBreakSuggestion := Some selectedBreak,
        dynamicCoachingMessage := Some (coachingMessage selectedBreak env),
        isFetchingCoachingMessage := False \<rparr>"

text \<open>A call that no other action interleaves with. A rejected call leaves its state behind.\<close>

definition showBreakSuggestion ::
  "bool \<Rightarrow> int \<Rightarrow> real \<Rightarrow> CoachingService \<Rightarrow> AppState \<Rightarrow> (error \<times> AppState) + AppState" where
  "showBreakSuggestion force now r env s =
     (case showBreakSuggestion_begin force now r s of
        NotRaised \<Rightarrow> Inr s
      | Threw e s1 \<Rightarrow> Inl (e, s1)
      | Awaiting selectedBreak s1 \<Rightarrow> Inr (showBreakSuggestion_finish selectedBreak env s1))"

subsection \<open>The closed form of the moving average\<close>

text \<open>
  The exponential moving average of the samples \<open>xs\<close> with factor \<open>alpha\<close>, started at
  \<open>s0\<close>, written as a sum: sample \<open>i\<close> of \<open>n\<close> has the weight
  \<open>alpha * (1 - alpha) ^ (n - 1 - i)\<close>, the start value the weight \<open>(1 - alpha) ^ n\<close>.
  This is the specification's reference value in exact arithmetic, written independently
  of the recurrence that \<^verbatim>\<open>updateMetricsFromCV\<close> computes.
\<close>

definition closedFormEMA :: "real \<Rightarrow> real \<Rightarrow> real list \<Rightarrow> real" where
  "closedFormEMA alpha s0 xs =
     (1 - alpha) ^ length xs * s0 +
     (\<Sum>i<length xs. alpha * (1 - alpha) ^ (length xs - 1 - i) * xs ! i)"

subsection \<open>The feedback aggregator\<close>

text \<open>
  Modelled from the spec: the Feedback Aggregator (section 4.5) and the data it works on
  (\<open>Score\<close>, \<open>PreferenceModel\<close> and \<open>FeedbackEvent\<close> of section 3). The sources hold
  no preference model and no reward computation; the definitions below follow the
  specification's wording. A variant without an entry has the score of mean 0 and 0 tries.
  A \<open>Dismissed\<close> event has reward 0 and applies to no variant: it leaves the model as it
  is. A sentiment scales the reward of a \<open>Completed\<close> or \<open>Skipped\<close> event.
\<close>

datatype Outcome = Completed | Skipped | Dismissed

datatype Sentiment = Positive | Neutral | Negative | NoSentiment

record Score =
  mean :: real
  tries :: nat

record FeedbackEvent =
  variant :: string
  outcome :: Outcome
  sentiment :: Sentiment
  occurredAt :: int

type_synonym PreferenceModel = "string \<rightharpoonup> Score"

text \<open>
  Modelled from the spec: the reward mapping of section 4.5, which the sources do not
  hold: +1 for Completed, -0.5 for Skipped, 0 for Dismissed, scaled by 1.5, 0.5 or 1 for a
  positive, negative or neutral sentiment (and by 1 when there is none).
\<close>

fun baseReward :: "Outcome \<Rightarrow> real" where
  "baseReward Completed = 1"
| "baseReward Skipped = - (1 / 2)"
| "baseReward Dismissed = 0"

fun multiplier :: "Sentiment \<Rightarrow> real" where
  "multiplier Positive = 3 / 2"
| "multiplier Negative = 1 / 2"
| "multiplier Neutral = 1"
| "multiplier NoSentiment = 1"

definition reward :: "FeedbackEvent \<Rightarrow> real" where
  "reward ev = baseReward (outcome ev) * multiplier (sentiment ev)"

definition scoreOf :: "PreferenceModel \<Rightarrow> string \<Rightarrow> Score" where
  "scoreOf model v = (case model v of None \<Rightarrow> \<lparr> mean = 0, tries = 0 \<rparr> | Some sc \<Rightarrow> sc)"

text \<open>
  Modelled from the spec: the update rule of section 4.5, which the sources do not hold:
  \<open>mean' = mean + (reward - mean) / (tries + 1)\<close> and \<open>tries' = tries + 1\<close>.
\<close>

definition updateScore :: "Score \<Rightarrow> real \<Rightarrow> Score" where
  "updateScore sc rew =
     \<lparr> mean = mean sc + (rew - mean sc) / (real (tries sc) + 1), tries = tries sc + 1 \<rparr>"

text \<open>
  Modelled from the spec: \<open>record(event, model)\<close> of section 4.5, which the sources do
  not hold. The event updates the score of its variant; a Dismissed event updates none.
\<close>

definition record_feedback :: "FeedbackEvent \<Rightarrow> PreferenceModel \<Rightarrow> PreferenceModel" where
  "record_feedback ev model =
     (if outcome ev = Dismissed then model
      else model(variant ev \<mapsto> updateScore (scoreOf model (variant ev)) (reward ev)))"

fun record_all :: "FeedbackEvent list \<Rightarrow> PreferenceModel \<Rightarrow> PreferenceModel" where
  "record_all [] model = model"
| "record_all (ev # evs) model = record_all evs (record_feedback ev model)"

text \<open>The naive recomputation: the rewards a variant received, and their average.\<close>

definition rewardsFor :: "string \<Rightarrow> FeedbackEvent list \<Rightarrow> real list" where
  "rewardsFor v evs = map reward (filter (\<lambda>ev. variant ev = v \<and> outcome ev \<noteq> Dismissed) evs)"

definition batchAverage :: "real list \<Rightarrow> real" where
  "batchAverage rs = (if rs = [] then 0 else sum_list rs / real (length rs))"


section \<open>Properties\<close>

subsection \<open>Auxiliary facts\<close>

text \<open>
  In exact arithmetic the recurrence of \<^verbatim>\<open>updateMetricsFromCV\<close> has the closed form.
  This is a fact about the idealised smoothed level: the code rounds each product and sum
  to a double, and the double it stores is not described by it.
\<close>

lemma closedFormEMA_Cons:
  "closedFormEMA a s0 (x # xs) = closedFormEMA a (a * x + (1 - a) * s0) xs"
  by (simp add: closedFormEMA_def sum.lessThan_Suc_shift algebra_simps del: sum.lessThan_Suc)

lemma feedSamples_closedFormEMA:
  "currentStressLevel (feedSamples samples s) =
     closedFormEMA SMOOTHING_FACTOR (currentStressLevel s) (map fst samples)"
proof (induction samples arbitrary: s)
  case Nil
  show ?case by (simp add: closedFormEMA_def)
next
  case (Cons p rest)
  obtain raw active where p: "p = (raw, active)" by (cases p)
  show ?case
    by (simp add: p Cons.IH closedFormEMA_Cons updateMetricsFromCV_def)
qed

lemma scoreOf_record_feedback:
  "scoreOf (record_feedback ev model) v =
     (if variant ev = v \<and> outcome ev \<noteq> Dismissed
      then updateScore (scoreOf model v) (reward ev) else scoreOf model v)"
  by (simp add: record_feedback_def scoreOf_def)

lemma scoreOf_record_all:
  "scoreOf (record_all evs model) v = foldl updateScore (scoreOf model v) (rewardsFor v evs)"
proof (induction evs arbitrary: model)
  case Nil
  show ?case by (simp add: rewardsFor_def)
next
  case (Cons ev evs)
  show ?case
    by (simp add: Cons.IH scoreOf_record_feedback rewardsFor_def)
qed

lemma tries_foldl_updateScore:
  "tries (foldl updateScore sc rs) = tries sc + length rs"
  by (induction rs arbitrary: sc) (simp_all add: updateScore_def)

lemma updateScore_total:
  "mean (updateScore sc rew) * (real (tries sc) + 1) = mean sc * real (tries sc) + rew"
  by (simp add: updateScore_def field_simps)

lemma total_foldl_updateScore:
  "mean (foldl updateScore sc rs) * (real (tries sc) + real (length rs)) =
     mean sc * real (tries sc) + sum_list rs"
proof (induction rs arbitrary: sc)
  case Nil
  show ?case by simp
next
  case (Cons rew rs)
  have "mean (foldl updateScore (updateScore sc rew) rs) *
          (real (tries (updateScore sc rew)) + real (length rs)) =
        mean (updateScore sc rew) * real (tries (updateScore sc rew)) + sum_list rs"
    by (rule Cons.IH)
  moreover have "real (tries (updateScore sc rew)) = real (tries sc) + 1"
    by (simp add: updateScore_def)
  ultimately show ?case
    using updateScore_total [of sc rew] by (simp add: algebra_simps)
qed

lemma mean_foldl_fresh:
  "mean (foldl updateScore \<lparr> mean = 0, tries = 0 \<rparr> rs) = batchAverage rs"
proof (cases "rs = []")
  case True
  then show ?thesis by (simp add: batchAverage_def)
next
  case False
  then have "real (length rs) \<noteq> 0" by simp
  then show ?thesis
    using total_foldl_updateScore [of "\<lparr> mean = 0, tries = 0 \<rparr>" rs] False
    by (simp add: batchAverage_def field_simps)
qed

lemma record_all_batch:
  "scoreOf (record_all evs Map.empty) v =
     \<lparr> mean = batchAverage (rewardsFor v evs), tries = length (rewardsFor v evs) \<rparr>"
proof -
  have e: "scoreOf Map.empty v = \<lparr> mean = 0, tries = 0 \<rparr>" by (simp add: scoreOf_def)
  show ?thesis
    by (simp add: scoreOf_record_all e mean_foldl_fresh tries_foldl_updateScore)
qed

subsection \<open>Facts about the rounding\<close>

lemma two_powr_powi: "2 powr real_of_int k = (2::real) powi k"
  by (simp add: powr_real_of_int power_int_def power_one_over inverse_eq_divide)

lemma roundTiesToEven_bounds: "q - 1 / 2 \<le> real_of_int (roundTiesToEven q) \<and> real_of_int (roundTiesToEven q) \<le> q + 1 / 2"
  by (auto simp add: roundTiesToEven_def Let_def; linarith)

lemma roundTiesToEven_le_int: "q \<le> real_of_int n \<Longrightarrow> roundTiesToEven q \<le> n"
proof -
  assume "q \<le> real_of_int n"
  then have "real_of_int (roundTiesToEven q) < real_of_int (n + 1)" using roundTiesToEven_bounds [of q] by simp
  then show ?thesis by linarith
qed

lemma roundTiesToEven_ge_int: "real_of_int n \<le> q \<Longrightarrow> n \<le> roundTiesToEven q"
proof -
  assume "real_of_int n \<le> q"
  then have "real_of_int (n - 1) < real_of_int (roundTiesToEven q)" using roundTiesToEven_bounds [of q] by simp
  then show ?thesis by linarith
qed

lemma ulp_pos: "0 < ulp x"
  by (simp add: ulp_def)

lemma exponent_eqI:
  assumes "2 powi e \<le> \<bar>x\<bar>" and "\<bar>x\<bar> < 2 powi (e + 1)" and "- 1022 \<le> e"
  shows "exponent x = e"
proof -
  have "(0::real) < 2 powi e" by simp
  then have "0 < \<bar>x\<bar>" using assms(1) by linarith
  then have "\<lfloor>log 2 \<bar>x\<bar>\<rfloor> = e"
    using assms(1,2) floor_log_eq_powr_iff [of "\<bar>x\<bar>" 2 e]
    by (simp add: two_powr_powi [symmetric])
  then show ?thesis using assms(3) by (simp add: exponent_def)
qed

lemma binary64_error: "\<bar>binary64 x - x\<bar> \<le> ulp x / 2"
proof (cases "x = 0")
  case True
  then show ?thesis using ulp_pos [of x] by (simp add: binary64_def)
next
  case False
  let ?q = "x / ulp x"
  have "binary64 x - x = (real_of_int (roundTiesToEven ?q) - ?q) * ulp x"
    using False ulp_pos [of x] by (simp add: binary64_def algebra_simps)
  then have "\<bar>binary64 x - x\<bar> = \<bar>real_of_int (roundTiesToEven ?q) - ?q\<bar> * ulp x"
    using ulp_pos [of x] by (simp add: abs_mult)
  moreover have "\<bar>real_of_int (roundTiesToEven ?q) - ?q\<bar> \<le> 1 / 2" using roundTiesToEven_bounds [of ?q] by linarith
  ultimately show ?thesis using ulp_pos [of x] by (simp add: mult_right_mono)
qed

lemma exponent_le:
  assumes "x \<noteq> 0" and "\<bar>x\<bar> < 2 powi k" and "- 1021 \<le> k"
  shows "exponent x \<le> k - 1"
proof -
  have "\<bar>x\<bar> < 2 powr real_of_int k" using assms(2) by (simp only: two_powr_powi)
  then have "log 2 \<bar>x\<bar> < real_of_int k"
    using assms(1) by (simp add: log_less_iff)
  then have "\<lfloor>log 2 \<bar>x\<bar>\<rfloor> < k" by linarith
  then show ?thesis using assms(3) by (simp add: exponent_def)
qed

lemma abs_lt_next_binade:
  assumes "x \<noteq> 0"
  shows "\<bar>x\<bar> < 2 powi (exponent x + 1)"
proof -
  have "log 2 \<bar>x\<bar> < real_of_int (\<lfloor>log 2 \<bar>x\<bar>\<rfloor> + 1)" by linarith
  also have "\<dots> \<le> real_of_int (exponent x + 1)" by (simp add: exponent_def)
  finally have "log 2 \<bar>x\<bar> < real_of_int (exponent x + 1)" .
  then have "\<bar>x\<bar> < 2 powr real_of_int (exponent x + 1)"
    using assms by (simp add: log_less_iff)
  then show ?thesis by (simp only: two_powr_powi)
qed

lemma ulp_scaled: "2 ^ 53 * ulp x = 2 powi (exponent x + 1)"
proof -
  have "(2::real) powi (53 + (exponent x - 52)) = 2 powi 53 * 2 powi (exponent x - 52)"
    by (rule power_int_add) simp
  moreover have "53 + (exponent x - 52) = exponent x + 1" by simp
  ultimately show ?thesis by (simp add: ulp_def)
qed

lemma binary64_nonneg: "0 \<le> x \<Longrightarrow> 0 \<le> binary64 x"
proof -
  assume "0 \<le> x"
  then have "0 \<le> x / ulp x" using ulp_pos [of x] by simp
  then have "0 \<le> roundTiesToEven (x / ulp x)" using roundTiesToEven_ge_int [of 0 "x / ulp x"] by simp
  then show ?thesis using ulp_pos [of x] by (simp add: binary64_def)
qed

lemma binary64_le_pow2:
  assumes "0 < x" and "x < 2 powi k" and "- 1021 \<le> k"
  shows "binary64 x \<le> 2 powi k"
proof -
  let ?e = "exponent x"
  have x0: "x \<noteq> 0" using assms(1) by simp
  have e: "?e + 1 \<le> k" using x0 assms exponent_le [of x k] by simp
  have "x < 2 powi (?e + 1)" using abs_lt_next_binade [OF x0] assms(1) by simp
  then have "x < 2 ^ 53 * ulp x" by (simp only: ulp_scaled)
  then have "x / ulp x < 2 ^ 53" using ulp_pos [of x] by (simp add: field_simps)
  then have "x / ulp x \<le> real_of_int (2 ^ 53)" by simp
  then have "roundTiesToEven (x / ulp x) \<le> 2 ^ 53" by (rule roundTiesToEven_le_int)
  then have "real_of_int (roundTiesToEven (x / ulp x)) \<le> real_of_int (2 ^ 53)" by (simp only: of_int_le_iff)
  then have "real_of_int (roundTiesToEven (x / ulp x)) * ulp x \<le> real_of_int (2 ^ 53) * ulp x"
    using ulp_pos [of x] by (simp only: mult_right_mono less_imp_le)
  then have "binary64 x \<le> 2 ^ 53 * ulp x" using x0 by (simp add: binary64_def)
  also have "\<dots> = 2 powi (?e + 1)" by (rule ulp_scaled)
  also have "\<dots> \<le> 2 powi k" using e by (simp add: power_int_increasing)
  finally show ?thesis .
qed

lemma is_double_below_one:
  assumes "is_double r" and "1 / 2 \<le> r" and "r < 1"
  shows "r \<le> 1 - 1 / 2 ^ 53"
proof -
  have r0: "r \<noteq> 0" using assms(2) by simp
  have e: "exponent r = - 1"
    using assms(2,3) by (intro exponent_eqI) simp_all
  have u: "ulp r = 1 / 2 ^ 53" by (simp add: ulp_def e)
  define k where "k = roundTiesToEven (r / ulp r)"
  have "binary64 r = real_of_int k * ulp r" using r0 by (simp add: binary64_def k_def)
  moreover have "binary64 r = r" using assms(1) by (simp add: is_double_def)
  ultimately have r: "r = real_of_int k / 2 ^ 53" using u by simp
  then have "real_of_int k < real_of_int (2 ^ 53)" using assms(3) by simp
  then have "k \<le> 2 ^ 53 - 1" by linarith
  then have "real_of_int k \<le> real_of_int (2 ^ 53 - 1)" by (simp only: of_int_le_iff)
  then have "real_of_int k / 2 ^ 53 \<le> (2 ^ 53 - 1) / 2 ^ 53"
    by (simp add: divide_right_mono)
  then show ?thesis using r by (simp add: field_simps)
qed

lemma binary64_times_5_range:
  assumes "is_double r" and "0 \<le> r" and "r < 1"
  shows "0 \<le> binary64 (r * 5) \<and> binary64 (r * 5) < 5"
proof -
  have lo: "0 \<le> binary64 (r * 5)" using assms(2) by (simp add: binary64_nonneg)
  have hi: "binary64 (r * 5) < 5"
  proof (cases "r * 5 < 4")
    case True
    show ?thesis
    proof (cases "r = 0")
      case True
      then show ?thesis by (simp add: binary64_def)
    next
      case False
      then have "0 < r * 5" using assms(2) by simp
      moreover have "r * 5 < 2 powi 2" using True by simp
      ultimately have "binary64 (r * 5) \<le> 2 powi 2" by (rule binary64_le_pow2) simp
      then show ?thesis by simp
    qed
  next
    case False
    then have four: "4 \<le> r * 5" by simp
    then have "r \<le> 1 - 1 / 2 ^ 53" using assms by (intro is_double_below_one) simp_all
    then have top: "r * 5 \<le> 5 - 5 / 2 ^ 53" by simp
    have x0: "r * 5 \<noteq> 0" using four by simp
    have e: "exponent (r * 5) = 2"
      using four assms(3) by (intro exponent_eqI) simp_all
    have u: "ulp (r * 5) = 1 / 2 ^ 50" by (simp add: ulp_def e)
    have "r * 5 / ulp (r * 5) \<le> (5 * 2 ^ 50 - 1) + 3 / 8" using top by (simp add: u)
    then have "real_of_int (roundTiesToEven (r * 5 / ulp (r * 5))) < real_of_int (5 * 2 ^ 50)"
      using roundTiesToEven_bounds [of "r * 5 / ulp (r * 5)"] by simp
    then have "roundTiesToEven (r * 5 / ulp (r * 5)) \<le> 5 * 2 ^ 50 - 1" by linarith
    then have "real_of_int (roundTiesToEven (r * 5 / ulp (r * 5))) \<le> real_of_int (5 * 2 ^ 50 - 1)"
      by (simp only: of_int_le_iff)
    then have "real_of_int (roundTiesToEven (r * 5 / ulp (r * 5))) / 2 ^ 50 \<le> (5 * 2 ^ 50 - 1) / 2 ^ 50"
      by (simp add: divide_right_mono)
    then have "binary64 (r * 5) \<le> (5 * 2 ^ 50 - 1) / 2 ^ 50"
      using x0 by (simp add: binary64_def u)
    then show ?thesis by simp
  qed
  from lo hi show ?thesis by simp
qed

lemma ulp_le_small:
  assumes "x \<noteq> 0" and "\<bar>x\<bar> < 8"
  shows "ulp x \<le> 1 / 2 ^ 50"
proof -
  have "\<bar>x\<bar> < 2 powi 3" using assms(2) by simp
  then have "exponent x \<le> 2" using exponent_le [of x 3] assms(1) by simp
  then have "(2::real) powi (exponent x - 52) \<le> 2 powi (- 50)"
    by (intro power_int_increasing) simp_all
  also have "(2::real) powi (- 50) = 1 / 2 ^ 50" by (simp add: power_int_minus_divide)
  finally show ?thesis by (simp only: ulp_def)
qed

lemma binary64_error_small: "\<bar>x\<bar> < 8 \<Longrightarrow> \<bar>binary64 x - x\<bar> \<le> 1 / 2 ^ 51"
proof (cases "x = 0")
  case True
  then show ?thesis by (simp add: binary64_def)
next
  case False
  assume "\<bar>x\<bar> < 8"
  then have "ulp x / 2 \<le> 1 / 2 ^ 51" using ulp_le_small [OF False] by simp
  then show ?thesis using binary64_error [of x] by linarith
qed

lemma binary64_eqI:
  assumes "2 powi e \<le> \<bar>x\<bar>" and "\<bar>x\<bar> < 2 powi (e + 1)" and "- 1022 \<le> e"
  shows "binary64 x = real_of_int (roundTiesToEven (x / 2 powi (e - 52))) * 2 powi (e - 52)"
proof -
  have "(0::real) < 2 powi e" by simp
  then have "0 < \<bar>x\<bar>" using assms(1) by linarith
  then have "x \<noteq> 0" by simp
  then show ?thesis using exponent_eqI [OF assms] by (simp add: binary64_def ulp_def)
qed

text \<open>The rounded product at some draws.\<close>

lemma is_double_zero: "is_double 0"
  by (simp add: is_double_def binary64_def)

lemma is_double_seven_eighths: "is_double (7 / 8)"
  using binary64_eqI [of "- 1" "7 / 8"] by (simp add: roundTiesToEven_def is_double_def)

lemma binary64_zero: "binary64 0 = 0"
  by (simp add: binary64_def)

text \<open>The product of 0.875 and 5 is a double, 4.375.\<close>

lemma binary64_seven_eighths_times_5: "binary64 (35 / 8) = 35 / 8"
  using binary64_eqI [of 2 "35 / 8"] by (simp add: roundTiesToEven_def)

text \<open>
  The double nearest to 0.6 is below 3/5, and its product with 5 rounds to 3.
\<close>

lemma is_double_nearest_six_tenths: "is_double (5404319552844595 / 9007199254740992)"
  using binary64_eqI [of "- 1" "5404319552844595 / 9007199254740992"]
  by (simp add: roundTiesToEven_def is_double_def)

lemma binary64_nearest_six_tenths_times_5:
  "binary64 (27021597764222975 / 9007199254740992) = 3"
  using binary64_eqI [of 1 "27021597764222975 / 9007199254740992"]
  by (simp add: roundTiesToEven_def)

lemma binary64_near:
  assumes "\<bar>x\<bar> < 8"
  shows "x - 1 / 2 ^ 51 \<le> binary64 x" and "binary64 x \<le> x + 1 / 2 ^ 51"
  using binary64_error_small [OF assms] by linarith+

subsection \<open>Facts about the selection and the guard\<close>

lemma length_breakTypes: "length breakTypes = 5"
  by (simp add: breakTypes_def)

lemma randomIndex_range:
  "is_double r \<Longrightarrow> 0 \<le> r \<Longrightarrow> r < 1 \<Longrightarrow> 0 \<le> randomIndex r \<and> randomIndex r < 5"
  using binary64_times_5_range [of r]
  by (simp add: randomIndex_def length_breakTypes floor_less_iff)

lemma selectBreak_in_range:
  "is_double r \<Longrightarrow> 0 \<le> r \<Longrightarrow> r < 1 \<Longrightarrow>
   selectBreak r = Some (breakTypes ! nat (randomIndex r))"
  using randomIndex_range [of r] by (simp add: selectBreak_def Let_def length_breakTypes)

lemma randomIndex_eq_iff:
  "randomIndex r = int i \<longleftrightarrow> real i \<le> binary64 (r * 5) \<and> binary64 (r * 5) < real i + 1"
  by (auto simp add: randomIndex_def length_breakTypes floor_eq_iff)

lemma distinct_breakTypes: "distinct breakTypes"
  by (simp add: breakTypes_def breathing_def stretch_def eye_rest_def mindful_moment_def puzzle_def)

lemma selectBreak_eq_iff:
  assumes "i < 5"
  shows "selectBreak r = Some (breakTypes ! i) \<longleftrightarrow>
           real i \<le> binary64 (r * 5) \<and> binary64 (r * 5) < real i + 1"
proof
  assume sel: "selectBreak r = Some (breakTypes ! i)"
  then have rng: "0 \<le> randomIndex r \<and> randomIndex r < 5"
    by (simp add: selectBreak_def Let_def length_breakTypes split: if_splits)
  with sel have "breakTypes ! nat (randomIndex r) = breakTypes ! i"
    by (simp add: selectBreak_def Let_def length_breakTypes)
  moreover have "nat (randomIndex r) < length breakTypes" "i < length breakTypes"
    using rng assms by (auto simp add: length_breakTypes)
  ultimately have "nat (randomIndex r) = i"
    using nth_eq_iff_index_eq [OF distinct_breakTypes] by blast
  with rng have "randomIndex r = int i" by auto
  then show "real i \<le> binary64 (r * 5) \<and> binary64 (r * 5) < real i + 1"
    by (simp add: randomIndex_eq_iff)
next
  assume "real i \<le> binary64 (r * 5) \<and> binary64 (r * 5) < real i + 1"
  then have "randomIndex r = int i" by (simp add: randomIndex_eq_iff)
  with assms show "selectBreak r = Some (breakTypes ! i)"
    by (simp add: selectBreak_def Let_def length_breakTypes)
qed

lemma selectBreak_zero: "selectBreak 0 = Some breathing"
  by (simp add: selectBreak_def randomIndex_def breakTypes_def binary64_zero)

lemma selectBreak_seven_eighths: "selectBreak (7 / 8) = Some puzzle"
  by (simp add: selectBreak_def randomIndex_def breakTypes_def binary64_seven_eighths_times_5)

text \<open>
  Near the double 0.6 the rounding decides: the exact product is below 3, the rounded
  one is 3.
\<close>

lemma selectBreak_nearest_six_tenths:
  "selectBreak (5404319552844595 / 9007199254740992) = Some mindful_moment
   \<and> \<lfloor>5404319552844595 / 9007199254740992 * (5::real)\<rfloor> = 2"
  by (simp add: selectBreak_def randomIndex_def breakTypes_def
      binary64_nearest_six_tenths_times_5)

lemma shouldShowNormally_iff:
  "lastBreakTimestamp s \<noteq> Some 0 \<Longrightarrow>
   shouldShowNormally s now =
     (\<not> breakSuggestionActive s \<and> isUserActive s \<and> currentStressLevel s > 21 \<and>
      (case lastBreakTimestamp s of None \<Rightarrow> True | Some t \<Rightarrow> now - t > 15 * 60 * 1000))"
  by (simp add: shouldShowNormally_def timeSinceLastBreak_def STRESS_THRESHOLD_def
      MIN_BREAK_INTERVAL_MS_def split: option.splits)

lemma begin_NotRaised_iff:
  "showBreakSuggestion_begin force now r s = NotRaised \<longleftrightarrow> \<not> force \<and> \<not> shouldShowNormally s now"
  by (simp add: showBreakSuggestion_begin_def Let_def split: option.splits)

lemma show_not_raised:
  "\<not> force \<Longrightarrow> \<not> shouldShowNormally s now \<Longrightarrow> showBreakSuggestion force now r env s = Inr s"
  by (simp add: showBreakSuggestion_def showBreakSuggestion_begin_def)

lemma show_raised:
  assumes "force \<or> shouldShowNormally s now" and "is_double r" and "0 \<le> r" and "r < 1"
  shows "showBreakSuggestion force now r env s =
           Inr (showBreakSuggestion_finish (breakTypes ! nat (randomIndex r)) env
                  (s\<lparr> isFetchingCoachingMessage := True, dynamicCoachingMessage := None \<rparr>))"
  using assms selectBreak_in_range [of r]
  by (simp add: showBreakSuggestion_def showBreakSuggestion_begin_def Let_def)

lemma feedSamples_keeps:
  "lastBreakTimestamp (feedSamples samples s) = lastBreakTimestamp s
   \<and> breakSuggestionActive (feedSamples samples s) = breakSuggestionActive s"
proof (induction samples arbitrary: s)
  case Nil
  show ?case by simp
next
  case (Cons p rest)
  obtain raw active where p: "p = (raw, active)" by (cases p)
  show ?case by (simp add: p Cons.IH updateMetricsFromCV_def)
qed

text \<open>
  \<^verbatim>\<open>lastBreakTimestamp\<close> is \<^verbatim>\<open>null\<close> or a reading of the clock: no action stores
  anything else there, so it is never 0 while the clock is not.
\<close>

lemma lastBreakTimestamp_is_a_clock_reading:
  assumes "lastBreakTimestamp s \<noteq> Some 0" and "now \<noteq> 0"
  shows "lastBreakTimestamp initialState \<noteq> Some 0"
    and "lastBreakTimestamp (updateMetricsFromCV raw active s) \<noteq> Some 0"
    and "lastBreakTimestamp (dismissBreakSuggestion c now s) \<noteq> Some 0"
    and "lastBreakTimestamp (recordBreakTaken now s) \<noteq> Some 0"
    and "lastBreakTimestamp (openChat s) \<noteq> Some 0"
    and "lastBreakTimestamp (openFeedbackChat m s) \<noteq> Some 0"
    and "lastBreakTimestamp (showBreakSuggestion_finish b env s) \<noteq> Some 0"
  using assms
  by (simp_all add: initialState_def updateMetricsFromCV_def dismissBreakSuggestion_def
      recordBreakTaken_def openChat_def openFeedbackChat_def showBreakSuggestion_finish_def)

text \<open>
  The guard of the normal path reads \<^verbatim>\<open>breakSuggestionActive\<close> and not the loading
  flag: a call without force made while an earlier call awaits its coaching message
  proceeds to its own selection.
\<close>

lemma pending_normal_call_proceeds:
  "isFetchingCoachingMessage
     (initialState\<lparr> currentStressLevel := 30, isUserActive := True,
        isFetchingCoachingMessage := True \<rparr>)
   \<and> showBreakSuggestion_begin False 5000 (7 / 8)
        (initialState\<lparr> currentStressLevel := 30, isUserActive := True,
           isFetchingCoachingMessage := True \<rparr>) =
      Awaiting puzzle
        (initialState\<lparr> currentStressLevel := 30, isUserActive := True,
           isFetchingCoachingMessage := True \<rparr>)"
  by (simp add: showBreakSuggestion_begin_def shouldShowNormally_def timeSinceLastBreak_def
      STRESS_THRESHOLD_def selectBreak_seven_eighths initialState_def)

text \<open>
  What the \<^verbatim>\<open>try\<close> block yields, by the answers of the two services: the fetched
  message when a non-empty token is there and the request and its decoding succeed, and a
  caught exception in every other case.
\<close>

lemma fetchCoachingMessage_succeeds:
  "authToken env = Inr (Some token) \<Longrightarrow> token \<noteq> [] \<Longrightarrow>
   coachingResponse env = Inr (Inr message) \<Longrightarrow>
   fetchCoachingMessage env = Inr message \<and> coachingMessage selectedBreak env = message"
  by (simp add: fetchCoachingMessage_def coachingMessage_def)

lemma coachingMessage_fails:
  assumes "(\<exists>e. authToken env = Inl e) \<or> authToken env = Inr None \<or>
     authToken env = Inr (Some []) \<or> (\<exists>e. coachingResponse env = Inl e) \<or>
     (\<exists>e. coachingResponse env = Inr (Inl e))"
  shows "coachingMessage selectedBreak env = description selectedBreak"
  using assms
  by (auto simp add: coachingMessage_def fetchCoachingMessage_def split: sum.splits option.splits)

subsection \<open>The claims\<close>

text \<open>
  C1. A call of \<^verbatim>\<open>showBreakSuggestion\<close> without force raises a suggestion exactly
  when no suggestion is active, the user is present, the smoothed stress level is above 21
  and more than 15 minutes have passed since the time in \<^verbatim>\<open>lastBreakTimestamp\<close> (or
  that is \<^verbatim>\<open>null\<close>: no session has ended); the raised call ends with an active
  suggestion, and a call that does not meet the conditions returns the state as it was.
  The stored time is a clock reading other than the epoch instant 0, and the random draw is
  a double from 0 up to but not including 1.
\<close>

theorem normal_path_raises_iff:
  "lastBreakTimestamp s \<noteq> Some 0 \<Longrightarrow>
   ((showBreakSuggestion_begin False now r s \<noteq> NotRaised) =
      (\<not> breakSuggestionActive s \<and> isUserActive s \<and> currentStressLevel s > 21 \<and>
       (case lastBreakTimestamp s of None \<Rightarrow> True | Some t \<Rightarrow> now - t > 15 * 60 * 1000)))
   \<and> ((\<not> breakSuggestionActive s \<and> isUserActive s \<and> currentStressLevel s > 21 \<and>
       (case lastBreakTimestamp s of None \<Rightarrow> True | Some t \<Rightarrow> now - t > 15 * 60 * 1000))
      \<and> is_double r \<and> 0 \<le> r \<and> r < 1 \<longrightarrow>
        (\<exists>s'. showBreakSuggestion False now r env s = Inr s' \<and> breakSuggestionActive s'))
   \<and> (\<not> (\<not> breakSuggestionActive s \<and> isUserActive s \<and> currentStressLevel s > 21 \<and>
       (case lastBreakTimestamp s of None \<Rightarrow> True | Some t \<Rightarrow> now - t > 15 * 60 * 1000))
      \<longrightarrow> showBreakSuggestion False now r env s = Inr s)"
proof -
  assume ts: "lastBreakTimestamp s \<noteq> Some 0"
  let ?conds = "\<not> breakSuggestionActive s \<and> isUserActive s \<and> currentStressLevel s > 21 \<and>
       (case lastBreakTimestamp s of None \<Rightarrow> True | Some t \<Rightarrow> now - t > 15 * 60 * 1000)"
  have norm: "shouldShowNormally s now = ?conds"
    using ts by (rule shouldShowNormally_iff)
  have a: "(showBreakSuggestion_begin False now r s \<noteq> NotRaised) = ?conds"
    using norm begin_NotRaised_iff [of False now r s] by blast
  have b: "?conds \<and> is_double r \<and> 0 \<le> r \<and> r < 1 \<longrightarrow>
        (\<exists>s'. showBreakSuggestion False now r env s = Inr s' \<and> breakSuggestionActive s')"
  proof
    assume h: "?conds \<and> is_double r \<and> 0 \<le> r \<and> r < 1"
    then have "shouldShowNormally s now" using norm by blast
    then show "\<exists>s'. showBreakSuggestion False now r env s = Inr s' \<and> breakSuggestionActive s'"
      using h show_raised [of False s now r env] by (simp add: showBreakSuggestion_finish_def)
  qed
  have c: "\<not> ?conds \<longrightarrow> showBreakSuggestion False now r env s = Inr s"
    using norm show_not_raised [of False s now r env] by blast
  from a b c show ?thesis by blast
qed


text \<open>
  The theorem at a store with stress level 30, a present user and a break recorded at time
  1000: a call at 901001 raises a suggestion, a call at 901000 changes nothing.
\<close>

theorem normal_path_raises_iff_witness:
  "lastBreakTimestamp (initialState\<lparr> currentStressLevel := 30, isUserActive := True,
       lastBreakTimestamp := Some 1000 \<rparr>) \<noteq> Some 0
   \<and> is_double 0
   \<and> showBreakSuggestion_begin False 901001 0
        (initialState\<lparr> currentStressLevel := 30, isUserActive := True,
           lastBreakTimestamp := Some 1000 \<rparr>) \<noteq> NotRaised
   \<and> (\<exists>s'. showBreakSuggestion False 901001 0
          \<lparr> authToken = Inr None, coachingResponse = Inl ExternalFailure \<rparr>
          (initialState\<lparr> currentStressLevel := 30, isUserActive := True,
             lastBreakTimestamp := Some 1000 \<rparr>) = Inr s' \<and> breakSuggestionActive s')
   \<and> showBreakSuggestion False 901000 0
        \<lparr> authToken = Inr None, coachingResponse = Inl ExternalFailure \<rparr>
        (initialState\<lparr> currentStressLevel := 30, isUserActive := True,
           lastBreakTimestamp := Some 1000 \<rparr>) =
      Inr (initialState\<lparr> currentStressLevel := 30, isUserActive := True,
           lastBreakTimestamp := Some 1000 \<rparr>)"
  using
    normal_path_raises_iff [of "initialState\<lparr> currentStressLevel := 30, isUserActive := True,
       lastBreakTimestamp := Some 1000 \<rparr>" 901001 0
       "\<lparr> authToken = Inr None, coachingResponse = Inl ExternalFailure \<rparr>"]
    normal_path_raises_iff [of "initialState\<lparr> currentStressLevel := 30, isUserActive := True,
       lastBreakTimestamp := Some 1000 \<rparr>" 901000 0
       "\<lparr> authToken = Inr None, coachingResponse = Inl ExternalFailure \<rparr>"]
  by (simp add: initialState_def is_double_zero)

text \<open>
  C2, as the code has it. A call of \<^verbatim>\<open>showBreakSuggestion\<close> without force made
  while a suggestion is active is a no-op: it raises nothing and returns the state as it
  was, whatever the clock, the random draw and the coaching service.
\<close>

theorem active_normal_call_noop:
  "breakSuggestionActive s \<Longrightarrow>
   showBreakSuggestion_begin False now r s = NotRaised
   \<and> showBreakSuggestion False now r env s = Inr s"
  by (simp add: showBreakSuggestion_def showBreakSuggestion_begin_def shouldShowNormally_def)

text \<open>The theorem at a store that shows the breathing break.\<close>

theorem active_normal_call_noop_witness:
  "breakSuggestionActive
     (initialState\<lparr> currentStressLevel := 30, isUserActive := True,
        breakSuggestionActive := True, currentBreakSuggestion := Some breathing,
        dynamicCoachingMessage := Some (description breathing) \<rparr>)
   \<and> showBreakSuggestion False 5000 (7 / 8)
        \<lparr> authToken = Inr (Some ''token''), coachingResponse = Inr (Inr ''Take a pause.'') \<rparr>
        (initialState\<lparr> currentStressLevel := 30, isUserActive := True,
           breakSuggestionActive := True, currentBreakSuggestion := Some breathing,
           dynamicCoachingMessage := Some (description breathing) \<rparr>) =
      Inr (initialState\<lparr> currentStressLevel := 30, isUserActive := True,
           breakSuggestionActive := True, currentBreakSuggestion := Some breathing,
           dynamicCoachingMessage := Some (description breathing) \<rparr>)"
  using active_normal_call_noop [of "initialState\<lparr> currentStressLevel := 30, isUserActive := True,
        breakSuggestionActive := True, currentBreakSuggestion := Some breathing,
        dynamicCoachingMessage := Some (description breathing) \<rparr>" 5000 "7 / 8"
        "\<lparr> authToken = Inr (Some ''token''), coachingResponse = Inr (Inr ''Take a pause.'') \<rparr>"]
  by simp

text \<open>
  The claim C2 as the specification words it (any call made while a suggestion is active
  changes no state) fails for a forced call: on a store that shows the breathing break,
  \<^verbatim>\<open>showBreakSuggestion(true)\<close> with the draw 0.875 replaces it by the puzzle break
  and a new message.
\<close>

theorem forced_call_while_active_counterexample:
  "breakSuggestionActive
     (initialState\<lparr> currentStressLevel := 30, isUserActive := True,
        breakSuggestionActive := True, currentBreakSuggestion := Some breathing,
        dynamicCoachingMessage := Some (description breathing) \<rparr>)
   \<and> showBreakSuggestion True 5000 (7 / 8)
        \<lparr> authToken = Inr (Some ''token''), coachingResponse = Inr (Inr ''Take a pause.'') \<rparr>
        (initialState\<lparr> currentStressLevel := 30, isUserActive := True,
           breakSuggestionActive := True, currentBreakSuggestion := Some breathing,
           dynamicCoachingMessage := Some (description breathing) \<rparr>) =
      Inr (initialState\<lparr> currentStressLevel := 30, isUserActive := True,
           breakSuggestionActive := True, currentBreakSuggestion := Some puzzle,
           dynamicCoachingMessage := Some ''Take a pause.'' \<rparr>)
   \<and> Some puzzle \<noteq> Some breathing"
  by (simp add: showBreakSuggestion_def showBreakSuggestion_begin_def selectBreak_seven_eighths
      showBreakSuggestion_finish_def coachingMessage_def fetchCoachingMessage_def
      initialState_def puzzle_def breathing_def)

text \<open>
  C4, as the code has it. The first sample is blended like every other one, against the
  initial smoothed value 0: after the first \<^verbatim>\<open>updateMetricsFromCV\<close> call the smoothed
  value is a tenth of the raw sample, and it equals the raw sample only when that is 0.
\<close>

theorem first_sample_blended:
  "currentStressLevel (updateMetricsFromCV raw active initialState) = raw / 10
   \<and> (currentStressLevel (updateMetricsFromCV raw active initialState) = raw) = (raw = 0)"
  by (simp add: updateMetricsFromCV_def SMOOTHING_FACTOR_def initialState_def)

text \<open>
  The claim C4 as the specification words it (the first sample initialises the smoothed
  value to itself) fails for the raw sample 90: the smoothed value after it is 9.
\<close>

theorem first_sample_counterexample:
  "currentStressLevel (updateMetricsFromCV 90 True initialState) = 9
   \<and> currentStressLevel (updateMetricsFromCV 90 True initialState) \<noteq> 90"
  by (simp add: updateMetricsFromCV_def SMOOTHING_FACTOR_def initialState_def)

text \<open>
  C5, as the code has it. After \<^verbatim>\<open>dismissBreakSuggestion(c)\<close> at a time \<open>t\<close> (a
  clock reading other than 0), and whatever samples arrive afterwards, the normal path
  raises a suggestion at time \<open>now\<close> exactly when the user is present, the smoothed
  stress level is above 21 and \<open>now\<close> is later than \<open>t\<close> plus 15 minutes: up to and
  including \<open>t\<close> plus 15 minutes a call without force leaves the state as it is, and the
  requested cooldown \<open>c\<close> plays no part.
\<close>

theorem dismissal_cooldown_is_global_minimum:
  "t \<noteq> 0 \<Longrightarrow>
   shouldShowNormally (feedSamples samples (dismissBreakSuggestion c t s)) now =
     (isUserActive (feedSamples samples (dismissBreakSuggestion c t s)) \<and>
      currentStressLevel (feedSamples samples (dismissBreakSuggestion c t s)) > 21 \<and>
      now > t + 15 * 60 * 1000)
   \<and> (now \<le> t + 15 * 60 * 1000 \<longrightarrow>
        showBreakSuggestion False now r env (feedSamples samples (dismissBreakSuggestion c t s)) =
          Inr (feedSamples samples (dismissBreakSuggestion c t s)))"
proof -
  assume t: "t \<noteq> 0"
  let ?s = "feedSamples samples (dismissBreakSuggestion c t s)"
  have ts: "lastBreakTimestamp ?s = Some t" and act: "\<not> breakSuggestionActive ?s"
    by (simp_all add: feedSamples_keeps dismissBreakSuggestion_def)
  have a: "shouldShowNormally ?s now =
     (isUserActive ?s \<and> currentStressLevel ?s > 21 \<and> now > t + 15 * 60 * 1000)"
    using t ts act shouldShowNormally_iff [of ?s now] by auto
  have b: "now \<le> t + 15 * 60 * 1000 \<longrightarrow> showBreakSuggestion False now r env ?s = Inr ?s"
    using a show_not_raised [of False ?s now r env] by auto
  from a b show ?thesis by blast
qed

text \<open>
  The theorem for a dismissal at time 1000000 with the cooldown 5, followed by one sample
  of 300 from a present user: nothing is raised at 1900000, the end of the 15 minutes, and
  the path is open one millisecond later.
\<close>

theorem dismissal_cooldown_is_global_minimum_witness:
  "(1000000::int) \<noteq> 0 \<and> (1900000::int) \<le> 1000000 + 15 * 60 * 1000
   \<and> \<not> shouldShowNormally
        (feedSamples [(300, True)] (dismissBreakSuggestion (Some 5) 1000000 initialState)) 1900000
   \<and> showBreakSuggestion False 1900000 0
        \<lparr> authToken = Inr None, coachingResponse = Inl ExternalFailure \<rparr>
        (feedSamples [(300, True)] (dismissBreakSuggestion (Some 5) 1000000 initialState)) =
      Inr (feedSamples [(300, True)] (dismissBreakSuggestion (Some 5) 1000000 initialState))
   \<and> shouldShowNormally
        (feedSamples [(300, True)] (dismissBreakSuggestion (Some 5) 1000000 initialState)) 1900001"
  using
    dismissal_cooldown_is_global_minimum [of 1000000 "[(300, True)]" "Some 5" initialState 1900000 0
      "\<lparr> authToken = Inr None, coachingResponse = Inl ExternalFailure \<rparr>"]
    dismissal_cooldown_is_global_minimum [of 1000000 "[(300, True)]" "Some 5" initialState 1900001 0
      "\<lparr> authToken = Inr None, coachingResponse = Inl ExternalFailure \<rparr>"]
  by (simp add: updateMetricsFromCV_def SMOOTHING_FACTOR_def dismissBreakSuggestion_def
      initialState_def)

text \<open>
  The claim C5 as the specification words it (nothing before \<open>t + max(c, 15 minutes)\<close>)
  fails for a cooldown of 30 minutes: after a dismissal at 1000000 and one sample of 300
  from a present user, a call without force at 2200000, 20 minutes after the dismissal,
  raises a suggestion.
\<close>

theorem long_dismissal_cooldown_counterexample:
  "(2200000::int) < 1000000 + max 30 15 * 60 * 1000
   \<and> showBreakSuggestion_begin False 2200000 0
        (updateMetricsFromCV 300 True (dismissBreakSuggestion (Some 30) 1000000 initialState)) =
      Awaiting breathing
        ((updateMetricsFromCV 300 True (dismissBreakSuggestion (Some 30) 1000000 initialState))
           \<lparr> isFetchingCoachingMessage := True, dynamicCoachingMessage := None \<rparr>)"
  by (simp add: showBreakSuggestion_begin_def shouldShowNormally_def timeSinceLastBreak_def
      STRESS_THRESHOLD_def MIN_BREAK_INTERVAL_MS_def selectBreak_zero
      updateMetricsFromCV_def SMOOTHING_FACTOR_def dismissBreakSuggestion_def
      initialState_def)

text \<open>
  C6. When a suggestion is being raised (by force or by the normal path) and the coaching
  call fails (\<^verbatim>\<open>auth.getAuthToken()\<close> throws, or returns no token or an empty one, or
  \<^verbatim>\<open>brain.generate_coaching_message\<close> throws, or the decoding of its answer throws),
  the call is not rejected: it ends with \<^verbatim>\<open>breakSuggestionActive\<close> true, a break of
  the catalogue selected, its static description as the message and the loading flag
  cleared. The same holds when other actions changed the store while the call was awaiting:
  the final write sets these fields on any store. The random draw is a double from 0 up to
  but not including 1.
\<close>

theorem coaching_failure_falls_back:
  "force \<or> shouldShowNormally s now \<Longrightarrow> is_double r \<Longrightarrow> 0 \<le> r \<Longrightarrow> r < 1 \<Longrightarrow>
   (\<exists>e. authToken env = Inl e) \<or> authToken env = Inr None \<or>
     authToken env = Inr (Some []) \<or> (\<exists>e. coachingResponse env = Inl e) \<or>
     (\<exists>e. coachingResponse env = Inr (Inl e)) \<Longrightarrow>
   (\<exists>b s1 s'. b \<in> set breakTypes
      \<and> showBreakSuggestion_begin force now r s = Awaiting b s1
      \<and> showBreakSuggestion force now r env s = Inr s'
      \<and> breakSuggestionActive s'
      \<and> currentBreakSuggestion s' = Some b
      \<and> dynamicCoachingMessage s' = Some (description b)
      \<and> \<not> isFetchingCoachingMessage s'
      \<and> (\<forall>mid. breakSuggestionActive (showBreakSuggestion_finish b env mid)
            \<and> currentBreakSuggestion (showBreakSuggestion_finish b env mid) = Some b
            \<and> dynamicCoachingMessage (showBreakSuggestion_finish b env mid) = Some (description b)
            \<and> \<not> isFetchingCoachingMessage (showBreakSuggestion_finish b env mid)))"
proof -
  assume go: "force \<or> shouldShowNormally s now" and r: "is_double r" "0 \<le> r" "r < 1"
    and fail: "(\<exists>e. authToken env = Inl e) \<or> authToken env = Inr None \<or>
     authToken env = Inr (Some []) \<or> (\<exists>e. coachingResponse env = Inl e) \<or>
     (\<exists>e. coachingResponse env = Inr (Inl e))"
  let ?b = "breakTypes ! nat (randomIndex r)"
  let ?s1 = "s\<lparr> isFetchingCoachingMessage := True, dynamicCoachingMessage := None \<rparr>"
  have sel: "selectBreak r = Some ?b" using r by (rule selectBreak_in_range)
  have mem: "?b \<in> set breakTypes"
    using randomIndex_range [OF r] by (auto simp add: length_breakTypes intro!: nth_mem)
  have beg: "showBreakSuggestion_begin force now r s = Awaiting ?b ?s1"
    using go sel by (simp add: showBreakSuggestion_begin_def)
  have run: "showBreakSuggestion force now r env s = Inr (showBreakSuggestion_finish ?b env ?s1)"
    using beg by (simp add: showBreakSuggestion_def)
  have msg: "coachingMessage ?b env = description ?b"
    using fail by (rule coachingMessage_fails)
  have fin: "breakSuggestionActive (showBreakSuggestion_finish ?b env mid)
            \<and> currentBreakSuggestion (showBreakSuggestion_finish ?b env mid) = Some ?b
            \<and> dynamicCoachingMessage (showBreakSuggestion_finish ?b env mid) = Some (description ?b)
            \<and> \<not> isFetchingCoachingMessage (showBreakSuggestion_finish ?b env mid)" for mid
    using msg by (simp add: showBreakSuggestion_finish_def)
  from mem beg run fin show ?thesis by blast
qed

text \<open>
  The theorem for each kind of failure: on the normal path, with the draw 0.875, a token
  call that throws, a missing token and an empty token; on the forced path, with the draw
  0, a request that throws and an answer whose decoding throws.
\<close>

theorem coaching_failure_falls_back_witness:
  "(False \<or> shouldShowNormally (initialState\<lparr> currentStressLevel := 30, isUserActive := True \<rparr>) 5000)
   \<and> is_double (7 / 8) \<and> (0::real) \<le> 7 / 8 \<and> (7 / 8 :: real) < 1
   \<and> showBreakSuggestion False 5000 (7 / 8)
        \<lparr> authToken = Inl ExternalFailure, coachingResponse = Inr (Inr ''Take a pause.'') \<rparr>
        (initialState\<lparr> currentStressLevel := 30, isUserActive := True \<rparr>) =
      Inr (initialState\<lparr> currentStressLevel := 30, isUserActive := True,
             breakSuggestionActive := True, currentBreakSuggestion := Some puzzle,
             dynamicCoachingMessage := Some (description puzzle) \<rparr>)
   \<and> showBreakSuggestion False 5000 (7 / 8)
        \<lparr> authToken = Inr None, coachingResponse = Inr (Inr ''Take a pause.'') \<rparr>
        (initialState\<lparr> currentStressLevel := 30, isUserActive := True \<rparr>) =
      Inr (initialState\<lparr> currentStressLevel := 30, isUserActive := True,
             breakSuggestionActive := True, currentBreakSuggestion := Some puzzle,
             dynamicCoachingMessage := Some (description puzzle) \<rparr>)
   \<and> showBreakSuggestion False 5000 (7 / 8)
        \<lparr> authToken = Inr (Some []), coachingResponse = Inr (Inr ''Take a pause.'') \<rparr>
        (initialState\<lparr> currentStressLevel := 30, isUserActive := True \<rparr>) =
      Inr (initialState\<lparr> currentStressLevel := 30, isUserActive := True,
             breakSuggestionActive := True, currentBreakSuggestion := Some puzzle,
             dynamicCoachingMessage := Some (description puzzle) \<rparr>)
   \<and> is_double 0
   \<and> showBreakSuggestion True 5000 0
        \<lparr> authToken = Inr (Some ''token''), coachingResponse = Inl ExternalFailure \<rparr>
        initialState =
      Inr (initialState\<lparr> breakSuggestionActive := True, currentBreakSuggestion := Some breathing,
             dynamicCoachingMessage := Some (description breathing) \<rparr>)
   \<and> showBreakSuggestion True 5000 0
        \<lparr> authToken = Inr (Some ''token''), coachingResponse = Inr (Inl ExternalFailure) \<rparr>
        initialState =
      Inr (initialState\<lparr> breakSuggestionActive := True, currentBreakSuggestion := Some breathing,
             dynamicCoachingMessage := Some (description breathing) \<rparr>)"
  using
    coaching_failure_falls_back [of False
      "initialState\<lparr> currentStressLevel := 30, isUserActive := True \<rparr>" 5000 "7 / 8"
      "\<lparr> authToken = Inl ExternalFailure, coachingResponse = Inr (Inr ''Take a pause.'') \<rparr>"]
    coaching_failure_falls_back [of False
      "initialState\<lparr> currentStressLevel := 30, isUserActive := True \<rparr>" 5000 "7 / 8"
      "\<lparr> authToken = Inr None, coachingResponse = Inr (Inr ''Take a pause.'') \<rparr>"]
    coaching_failure_falls_back [of False
      "initialState\<lparr> currentStressLevel := 30, isUserActive := True \<rparr>" 5000 "7 / 8"
      "\<lparr> authToken = Inr (Some []), coachingResponse = Inr (Inr ''Take a pause.'') \<rparr>"]
    coaching_failure_falls_back [of True initialState 5000 0
      "\<lparr> authToken = Inr (Some ''token''), coachingResponse = Inl ExternalFailure \<rparr>"]
    coaching_failure_falls_back [of True initialState 5000 0
      "\<lparr> authToken = Inr (Some ''token''), coachingResponse = Inr (Inl ExternalFailure) \<rparr>"]
  by (simp add: showBreakSuggestion_def showBreakSuggestion_begin_def shouldShowNormally_def
      timeSinceLastBreak_def STRESS_THRESHOLD_def selectBreak_seven_eighths selectBreak_zero
      showBreakSuggestion_finish_def coachingMessage_def fetchCoachingMessage_def
      is_double_seven_eighths is_double_zero initialState_def)

text \<open>
  C7, as the code has it. \<^verbatim>\<open>recordBreakTaken\<close> and \<^verbatim>\<open>dismissBreakSuggestion\<close>
  have no guard and cannot throw: in every state, also when no suggestion is active, they
  clear the four suggestion fields and set \<^verbatim>\<open>lastBreakTimestamp\<close> to the current
  time, which restarts the cooldown, and leave every other field as it was. Such a call
  returns the state unchanged only when the suggestion fields were clear already and
  \<^verbatim>\<open>lastBreakTimestamp\<close> was the current time already.
\<close>

theorem end_actions_unconditional:
  "lastBreakTimestamp (recordBreakTaken now s) = Some now
   \<and> lastBreakTimestamp (dismissBreakSuggestion c now s) = Some now
   \<and> dismissBreakSuggestion c now s = recordBreakTaken now s
   \<and> \<not> breakSuggestionActive (recordBreakTaken now s)
   \<and> currentBreakSuggestion (recordBreakTaken now s) = None
   \<and> dynamicCoachingMessage (recordBreakTaken now s) = None
   \<and> \<not> isFetchingCoachingMessage (recordBreakTaken now s)
   \<and> currentStressLevel (recordBreakTaken now s) = currentStressLevel s
   \<and> isUserActive (recordBreakTaken now s) = isUserActive s
   \<and> isChatOpen (recordBreakTaken now s) = isChatOpen s
   \<and> isCompanionChatOpen (recordBreakTaken now s) = isCompanionChatOpen s
   \<and> isFeedbackChatOpen (recordBreakTaken now s) = isFeedbackChatOpen s
   \<and> feedbackChatHistory (recordBreakTaken now s) = feedbackChatHistory s
   \<and> isFeedbackLoading (recordBreakTaken now s) = isFeedbackLoading s
   \<and> (recordBreakTaken now s = s) =
       (\<not> breakSuggestionActive s \<and> currentBreakSuggestion s = None \<and>
        dynamicCoachingMessage s = None \<and> \<not> isFetchingCoachingMessage s \<and>
        lastBreakTimestamp s = Some now)"
proof -
  have same: "dismissBreakSuggestion c now s = recordBreakTaken now s"
    by (simp add: dismissBreakSuggestion_def recordBreakTaken_def)
  have fields:
    "lastBreakTimestamp (recordBreakTaken now s) = Some now"
    "\<not> breakSuggestionActive (recordBreakTaken now s)"
    "currentBreakSuggestion (recordBreakTaken now s) = None"
    "dynamicCoachingMessage (recordBreakTaken now s) = None"
    "\<not> isFetchingCoachingMessage (recordBreakTaken now s)"
    "currentStressLevel (recordBreakTaken now s) = currentStressLevel s"
    "isUserActive (recordBreakTaken now s) = isUserActive s"
    "isChatOpen (recordBreakTaken now s) = isChatOpen s"
    "isCompanionChatOpen (recordBreakTaken now s) = isCompanionChatOpen s"
    "isFeedbackChatOpen (recordBreakTaken now s) = isFeedbackChatOpen s"
    "feedbackChatHistory (recordBreakTaken now s) = feedbackChatHistory s"
    "isFeedbackLoading (recordBreakTaken now s) = isFeedbackLoading s"
    by (simp_all add: recordBreakTaken_def)
  have noop: "(recordBreakTaken now s = s) =
       (\<not> breakSuggestionActive s \<and> currentBreakSuggestion s = None \<and>
        dynamicCoachingMessage s = None \<and> \<not> isFetchingCoachingMessage s \<and>
        lastBreakTimestamp s = Some now)"
    by (cases s) (auto simp add: recordBreakTaken_def)
  show ?thesis
    using same fields noop by simp
qed

text \<open>
  The claim C7 as the specification words it (a completion or dismissal while no suggestion
  is active leaves the whole state, \<^verbatim>\<open>lastBreakTimestamp\<close> included, unchanged) fails
  on the initial store: \<^verbatim>\<open>recordBreakTaken\<close> at time 1000 sets
  \<^verbatim>\<open>lastBreakTimestamp\<close> to 1000, and a suggestion that the normal path would have
  raised at time 2000 is no longer raised.
\<close>

theorem record_while_idle_counterexample:
  "\<not> breakSuggestionActive initialState
   \<and> lastBreakTimestamp initialState = None
   \<and> lastBreakTimestamp (recordBreakTaken 1000 initialState) = Some 1000
   \<and> recordBreakTaken 1000 initialState \<noteq> initialState
   \<and> dismissBreakSuggestion None 1000 initialState \<noteq> initialState
   \<and> shouldShowNormally (initialState\<lparr> currentStressLevel := 30, isUserActive := True \<rparr>) 2000
   \<and> \<not> shouldShowNormally
        (recordBreakTaken 1000 (initialState\<lparr> currentStressLevel := 30, isUserActive := True \<rparr>))
        2000"
  by (simp add: recordBreakTaken_def dismissBreakSuggestion_def initialState_def
      shouldShowNormally_def timeSinceLastBreak_def STRESS_THRESHOLD_def MIN_BREAK_INTERVAL_MS_def)

text \<open>
  C8, as the code has it. The selection is a uniform draw over the catalogue and nothing
  else: with \<open>r\<close> the result of \<^verbatim>\<open>Math.random()\<close>, a double from 0 up to but not
  including 1, the selected break is an entry of the five-entry catalogue, and entry \<open>i\<close>
  is selected exactly when the product \<open>r * 5\<close>, as the code rounds it, lies from \<open>i\<close> up
  to but not including \<open>i + 1\<close>. Every draw from \<open>i / 5 + 2 ^ (- 53)\<close> up to
  \<open>(i + 1) / 5 - 2 ^ (- 53)\<close> selects entry \<open>i\<close>, and no draw outside
  \<open>i / 5 - 2 ^ (- 53)\<close> to \<open>(i + 1) / 5 + 2 ^ (- 53)\<close> does: each of the five distinct
  entries has an interval of draws of length one fifth, up to the rounding of the product.
  The draw is the only input of the selection: no exploration probability and no preference
  score is read or written.
\<close>

theorem selection_is_uniform_draw:
  "(is_double r \<and> 0 \<le> r \<and> r < 1 \<longrightarrow> (\<exists>i<5. selectBreak r = Some (breakTypes ! i)))
   \<and> (i < 5 \<longrightarrow>
        (selectBreak r = Some (breakTypes ! i)) =
          (real i \<le> binary64 (r * 5) \<and> binary64 (r * 5) < real i + 1))
   \<and> (i < 5 \<and> real i / 5 + 1 / 2 ^ 53 \<le> r \<and> r < (real i + 1) / 5 - 1 / 2 ^ 53 \<longrightarrow>
        selectBreak r = Some (breakTypes ! i))
   \<and> (i < 5 \<and> 0 \<le> r \<and> r < 1 \<and> selectBreak r = Some (breakTypes ! i) \<longrightarrow>
        real i / 5 - 1 / 2 ^ 53 \<le> r \<and> r < (real i + 1) / 5 + 1 / 2 ^ 53)
   \<and> length breakTypes = 5 \<and> distinct breakTypes"
proof -
  have a: "is_double r \<and> 0 \<le> r \<and> r < 1 \<longrightarrow> (\<exists>i<5. selectBreak r = Some (breakTypes ! i))"
  proof
    assume r: "is_double r \<and> 0 \<le> r \<and> r < 1"
    then have "nat (randomIndex r) < 5" using randomIndex_range [of r] by auto
    moreover have "selectBreak r = Some (breakTypes ! nat (randomIndex r))"
      using r selectBreak_in_range [of r] by simp
    ultimately show "\<exists>i<5. selectBreak r = Some (breakTypes ! i)" by blast
  qed
  have b: "i < 5 \<longrightarrow>
        (selectBreak r = Some (breakTypes ! i)) =
          (real i \<le> binary64 (r * 5) \<and> binary64 (r * 5) < real i + 1)"
    using selectBreak_eq_iff [of i r] by blast
  have c: "i < 5 \<and> real i / 5 + 1 / 2 ^ 53 \<le> r \<and> r < (real i + 1) / 5 - 1 / 2 ^ 53 \<longrightarrow>
        selectBreak r = Some (breakTypes ! i)"
  proof
    assume h: "i < 5 \<and> real i / 5 + 1 / 2 ^ 53 \<le> r \<and> r < (real i + 1) / 5 - 1 / 2 ^ 53"
    then have lo: "real i + 5 / 2 ^ 53 \<le> r * 5" and hi: "r * 5 < real i + 1 - 5 / 2 ^ 53"
      by (simp_all add: field_simps)
    have "real i < 5" using h by simp
    then have small: "\<bar>r * 5\<bar> < 8" using lo hi by simp
    have "(5::real) / 2 ^ 53 = 1 / 2 ^ 51 + 1 / 2 ^ 53" and "(0::real) < 1 / 2 ^ 53"
      by simp_all
    then have "real i \<le> r * 5 - 1 / 2 ^ 51" and "r * 5 + 1 / 2 ^ 51 < real i + 1"
      using lo hi by linarith+
    then have "real i \<le> binary64 (r * 5) \<and> binary64 (r * 5) < real i + 1"
      using binary64_near [OF small] by linarith
    then show "selectBreak r = Some (breakTypes ! i)"
      using h selectBreak_eq_iff [of i r] by blast
  qed
  have d: "i < 5 \<and> 0 \<le> r \<and> r < 1 \<and> selectBreak r = Some (breakTypes ! i) \<longrightarrow>
        real i / 5 - 1 / 2 ^ 53 \<le> r \<and> r < (real i + 1) / 5 + 1 / 2 ^ 53"
  proof
    assume h: "i < 5 \<and> 0 \<le> r \<and> r < 1 \<and> selectBreak r = Some (breakTypes ! i)"
    then have sel: "real i \<le> binary64 (r * 5) \<and> binary64 (r * 5) < real i + 1"
      using selectBreak_eq_iff [of i r] by blast
    have small: "\<bar>r * 5\<bar> < 8" using h by simp
    have "real i - 1 / 2 ^ 51 \<le> r * 5" and "r * 5 < real i + 1 + 1 / 2 ^ 51"
      using sel binary64_near [OF small] by linarith+
    moreover have "(1::real) / 2 ^ 51 \<le> 5 / 2 ^ 53" by simp
    ultimately have "real i - 5 / 2 ^ 53 \<le> r * 5" and "r * 5 < real i + 1 + 5 / 2 ^ 53"
      by linarith+
    then show "real i / 5 - 1 / 2 ^ 53 \<le> r \<and> r < (real i + 1) / 5 + 1 / 2 ^ 53"
      by (simp add: field_simps)
  qed
  from a b c d length_breakTypes distinct_breakTypes show ?thesis by blast
qed

text \<open>
  The theorem at the draw 0.875, which selects entry 4, the puzzle, and at the double
  nearest to 0.6, whose product with 5 rounds to 3 and selects entry 3.
\<close>

theorem selection_is_uniform_draw_witness:
  "is_double (7 / 8) \<and> (0::real) \<le> 7 / 8 \<and> (7 / 8 :: real) < 1 \<and> (4::nat) < 5
   \<and> real 4 / 5 + 1 / 2 ^ 53 \<le> 7 / 8 \<and> 7 / 8 < (real 4 + 1) / 5 - 1 / 2 ^ 53
   \<and> selectBreak (7 / 8) = Some (breakTypes ! 4)
   \<and> breakTypes ! 4 = puzzle
   \<and> (3::nat) < 5
   \<and> real 3 \<le> binary64 (5404319552844595 / 9007199254740992 * 5)
   \<and> binary64 (5404319552844595 / 9007199254740992 * 5) < real 3 + 1
   \<and> selectBreak (5404319552844595 / 9007199254740992) = Some (breakTypes ! 3)
   \<and> real 3 / 5 - 1 / 2 ^ 53 \<le> 5404319552844595 / 9007199254740992
   \<and> breakTypes ! 3 = mindful_moment"
  using selection_is_uniform_draw [of "7 / 8" 4]
    selection_is_uniform_draw [of "5404319552844595 / 9007199254740992" 3]
  by (simp add: breakTypes_def is_double_seven_eighths binary64_nearest_six_tenths_times_5)

text \<open>
  The claim C8 as the specification words it (without exploration the selector always
  returns the one variant with the highest mean score) fails: the selection depends on the
  draw alone, and the draws 0 and 0.875 select two different breaks.
\<close>

theorem selection_ignores_scores_counterexample:
  "selectBreak 0 = Some breathing \<and> selectBreak (7 / 8) = Some puzzle \<and> breathing \<noteq> puzzle"
  by (simp add: selectBreak_zero selectBreak_seven_eighths breathing_def puzzle_def)

text \<open>
  C9. The aggregator updates a score by \<open>mean' = mean + (reward - mean) / (tries + 1)\<close>
  and \<open>tries' = tries + 1\<close>, with the rewards +1 for Completed and -0.5 for Skipped,
  scaled by 1.5, 0.5 or 1 for a positive, negative or neutral sentiment. A Completed event
  with Positive sentiment moves a fresh variant to mean 1.5 with 1 try, a following Skipped
  event without sentiment to mean 0.5 with 2 tries. After any sequence of events, recorded
  one by one from the empty model, the mean of a variant is the batch average of the
  rewards it received, and its tries their number.
\<close>

theorem feedback_incremental_mean:
  "updateScore sc rew =
     \<lparr> mean = mean sc + (rew - mean sc) / (real (tries sc) + 1), tries = tries sc + 1 \<rparr>
   \<and> scoreOf (record_feedback ev model) v =
       (if variant ev = v \<and> outcome ev \<noteq> Dismissed
        then updateScore (scoreOf model v) (reward ev) else scoreOf model v)
   \<and> reward \<lparr> variant = v, outcome = Completed, sentiment = Positive, occurredAt = t1 \<rparr> = 3 / 2
   \<and> reward \<lparr> variant = v, outcome = Completed, sentiment = Negative, occurredAt = t1 \<rparr> = 1 / 2
   \<and> reward \<lparr> variant = v, outcome = Completed, sentiment = Neutral, occurredAt = t1 \<rparr> = 1
   \<and> reward \<lparr> variant = v, outcome = Skipped, sentiment = Positive, occurredAt = t1 \<rparr> = - (3 / 4)
   \<and> reward \<lparr> variant = v, outcome = Skipped, sentiment = Negative, occurredAt = t1 \<rparr> = - (1 / 4)
   \<and> reward \<lparr> variant = v, outcome = Skipped, sentiment = Neutral, occurredAt = t1 \<rparr> = - (1 / 2)
   \<and> scoreOf (record_feedback
         \<lparr> variant = ''breathing'', outcome = Completed, sentiment = Positive, occurredAt = t1 \<rparr>
         Map.empty) ''breathing'' = \<lparr> mean = 3 / 2, tries = 1 \<rparr>
   \<and> scoreOf (record_feedback
         \<lparr> variant = ''breathing'', outcome = Skipped, sentiment = NoSentiment, occurredAt = t2 \<rparr>
         (record_feedback
           \<lparr> variant = ''breathing'', outcome = Completed, sentiment = Positive, occurredAt = t1 \<rparr>
           Map.empty)) ''breathing'' = \<lparr> mean = 1 / 2, tries = 2 \<rparr>
   \<and> scoreOf (record_all evs Map.empty) v =
       \<lparr> mean = batchAverage (rewardsFor v evs), tries = length (rewardsFor v evs) \<rparr>"
proof -
  have rule: "updateScore sc rew =
     \<lparr> mean = mean sc + (rew - mean sc) / (real (tries sc) + 1), tries = tries sc + 1 \<rparr>"
    by (simp add: updateScore_def)
  have rewards:
    "reward \<lparr> variant = v, outcome = Completed, sentiment = Positive, occurredAt = t1 \<rparr> = 3 / 2"
    "reward \<lparr> variant = v, outcome = Completed, sentiment = Negative, occurredAt = t1 \<rparr> = 1 / 2"
    "reward \<lparr> variant = v, outcome = Completed, sentiment = Neutral, occurredAt = t1 \<rparr> = 1"
    "reward \<lparr> variant = v, outcome = Skipped, sentiment = Positive, occurredAt = t1 \<rparr> = - (3 / 4)"
    "reward \<lparr> variant = v, outcome = Skipped, sentiment = Negative, occurredAt = t1 \<rparr> = - (1 / 4)"
    "reward \<lparr> variant = v, outcome = Skipped, sentiment = Neutral, occurredAt = t1 \<rparr> = - (1 / 2)"
    by (simp_all add: reward_def)
  have first: "scoreOf (record_feedback
         \<lparr> variant = ''breathing'', outcome = Completed, sentiment = Positive, occurredAt = t1 \<rparr>
         Map.empty) ''breathing'' = \<lparr> mean = 3 / 2, tries = 1 \<rparr>"
    by (simp add: record_feedback_def scoreOf_def updateScore_def reward_def)
  have second: "scoreOf (record_feedback
         \<lparr> variant = ''breathing'', outcome = Skipped, sentiment = NoSentiment, occurredAt = t2 \<rparr>
         (record_feedback
           \<lparr> variant = ''breathing'', outcome = Completed, sentiment = Positive, occurredAt = t1 \<rparr>
           Map.empty)) ''breathing'' = \<lparr> mean = 1 / 2, tries = 2 \<rparr>"
    by (simp add: record_feedback_def scoreOf_def updateScore_def reward_def)
  show ?thesis
    using rule scoreOf_record_feedback [of ev model v] rewards first second
      record_all_batch [of evs v]
    by blast
qed


text \<open>
  C10. The state that \<^verbatim>\<open>dismissBreakSuggestion\<close> produces does not depend on its
  \<^verbatim>\<open>cooldownMinutes\<close> argument: any two arguments (the omitted one, which defaults
  to 5, included) give the same store, with the suggestion fields cleared and
  \<^verbatim>\<open>lastBreakTimestamp\<close> set to the current time.
\<close>

theorem dismiss_ignores_cooldown:
  "dismissBreakSuggestion c1 now s = dismissBreakSuggestion c2 now s
   \<and> dismissBreakSuggestion c1 now s = dismissBreakSuggestion None now s
   \<and> lastBreakTimestamp (dismissBreakSuggestion c1 now s) = Some now
   \<and> breakSuggestionActive (dismissBreakSuggestion c1 now s) = False
   \<and> currentBreakSuggestion (dismissBreakSuggestion c1 now s) = None
   \<and> dynamicCoachingMessage (dismissBreakSuggestion c1 now s) = None
   \<and> isFetchingCoachingMessage (dismissBreakSuggestion c1 now s) = False"
  by (simp add: dismissBreakSuggestion_def)

end
